theory Spec2Isabelle
  imports Main
begin

section \<open>The constructs the stack is built from\<close>

text \<open>
  The step package (\<^verbatim>\<open>step.stack.ts\<close>) builds a Step Functions workflow out of
  constructs of the wrapped framework. Only the properties that the stack sets or
  reads are kept: a Lambda function is known by its \<^verbatim>\<open>functionName\<close>, a table by
  its name.
\<close>

record Function =
  functionName :: string

record ITable =
  tableName :: string

text \<open>
  A row of the system table of the data package (\<^verbatim>\<open>core.model.ts\<close>): identified by
  \<^verbatim>\<open>id\<close> and \<^verbatim>\<open>tenant\<close>, with an optional \<^verbatim>\<open>payload\<close>.
\<close>

record SystemTable =
  id' :: string
  tenant :: string
  payload :: "string option"

text \<open>\<^verbatim>\<open>DynamoAttributeValue.fromString(s)\<close> is the string attribute \<^verbatim>\<open>{S: s}\<close>.\<close>

datatype DynamoAttributeValue = AttrS string

definition fromString :: "string \<Rightarrow> DynamoAttributeValue" where
  "fromString s = AttrS s"

text \<open>\<^verbatim>\<open>Condition.stringEquals(variable, value)\<close>.\<close>

datatype Condition = StringEquals string string

definition stringEquals :: "string \<Rightarrow> string \<Rightarrow> Condition" where
  "stringEquals variable val = StringEquals variable val"

text \<open>
  The states the stack creates (\<^verbatim>\<open>IChainable\<close>), each with its construct id first:
  \<^item> \<^verbatim>\<open>new Pass(this, id)\<close>;
  \<^item> \<^verbatim>\<open>new LambdaInvoke(this, id, {lambdaFunction, outputPath})\<close>;
  \<^item> \<^verbatim>\<open>new DynamoGetItem(this, id, {table, key, resultPath})\<close>;
  \<^item> \<^verbatim>\<open>new Choice(this, id).when(c, s)....otherwise(d)\<close>: the rules in the order of
    the \<^verbatim>\<open>when\<close> calls, and the default if \<^verbatim>\<open>otherwise\<close> was called.
\<close>

datatype IChainable =
    Pass string
  | LambdaInvoke string Function string
  | DynamoGetItem string ITable "(string \<times> DynamoAttributeValue) list" string
  | Choice string "(Condition \<times> IChainable) list" "IChainable option"

text \<open>
  Modelled from the spec: the framework's \<^verbatim>\<open>Chain\<close> class, which is not part of the
  repository. The specification describes the execution plan as an ordered sequence of
  steps that the engine chains one after the other: \<^verbatim>\<open>Chain.start\<close> is the sequence of
  one step, and \<^verbatim>\<open>next\<close> appends one step at the end.
\<close>

type_synonym Chain = "IChainable list"

definition Chain_start :: "IChainable \<Rightarrow> Chain" where
  "Chain_start s = [s]"

definition Chain_next :: "Chain \<Rightarrow> IChainable \<Rightarrow> Chain" where
  "Chain_next c s = c @ [s]"

text \<open>
  \<^verbatim>\<open>Duration\<close> is the framework's too: an amount with its unit. The factory
  \<^verbatim>\<open>Duration.minutes\<close> throws on a negative amount (\<^verbatim>\<open>Duration amounts cannot be
  negative\<close>) and accepts every other one, zero included; it is the only place where a
  timeout can be refused, since the stack has no check of its own. Timeouts are integers
  here.
\<close>

datatype TimeUnit = Seconds | Minutes

datatype Duration = Duration int TimeUnit

datatype error = NegativeDuration int

definition Duration_minutes :: "int \<Rightarrow> error + Duration" where
  "Duration_minutes amount =
     (if amount < 0 then Inl (NegativeDuration amount) else Inr (Duration amount Minutes))"

fun toSeconds :: "Duration \<Rightarrow> int" where
  "toSeconds (Duration amount Seconds) = amount"
| "toSeconds (Duration amount Minutes) = amount * 60"

text \<open>\<^verbatim>\<open>new StateMachine(this, name, {definition, timeout})\<close>.\<close>

record StateMachine =
  machineName :: string
  definition_chain :: Chain
  timeout :: Duration

section \<open>The stack\<close>

text \<open>
  \<^verbatim>\<open>ILambdaRegistery\<close> and \<^verbatim>\<open>IStepFunctionProps\<close>. The registry is a JavaScript
  \<^verbatim>\<open>Map\<close>, which \<^verbatim>\<open>forEach\<close> walks in insertion order: it is the list of its
  entries, key first, in that order.
\<close>

record ILambdaRegistery =
  fn :: Function
  repeat :: bool

record IStepFunctionProps =
  systemTableName :: ITable
  tenant :: string
  fnRegistry :: "(string \<times> ILambdaRegistery) list"

text \<open>
  The fields of \<^verbatim>\<open>StepFunctionStack\<close>. The methods assign to \<^verbatim>\<open>items\<close> and
  \<^verbatim>\<open>stateMachine\<close>, so each method takes the stack and returns it updated, next to its
  result. A field declared with \<^verbatim>\<open>!\<close> and not assigned yet is \<open>None\<close>.
\<close>

record StepFunctionStack =
  items :: "string \<rightharpoonup> IChainable"
  stateMachine :: "StateMachine option"
  systemTableName :: ITable
  tenant :: string
  chain :: "Chain option"
  chainLink :: "Chain option"

definition registerFn :: "Function \<Rightarrow> StepFunctionStack \<Rightarrow> IChainable \<times> StepFunctionStack" where
  "registerFn lambda this =
     (let invokeLambda = LambdaInvoke (''Invoke '' @ functionName lambda) lambda ''$.Payload''
      in (invokeLambda, this\<lparr>items := (items this)(functionName lambda \<mapsto> invokeLambda)\<rparr>))"

definition registerCheck :: "string \<Rightarrow> StepFunctionStack \<Rightarrow> IChainable \<times> StepFunctionStack" where
  "registerCheck lambdaName this =
     (let checkLambdaStatus =
            DynamoGetItem (''Check '' @ lambdaName @ '' Status'') (systemTableName this)
              [(''id'', fromString lambdaName), (''tenant'', fromString (tenant this))]
              ''$.dynamodbResult''
      in (checkLambdaStatus,
          this\<lparr>items := (items this)(''check'' @ lambdaName \<mapsto> checkLambdaStatus)\<rparr>))"

definition registerChoice :: "Function \<Rightarrow> StepFunctionStack \<Rightarrow> IChainable \<times> StepFunctionStack" where
  "registerChoice lambda this =
     (let skip = Pass (''Skip '' @ functionName lambda);
          (invokeLambda, this1) = registerFn lambda this;
          isLambdaAlreadySuccessful =
            Choice (''Is '' @ functionName lambda @ '' Successful?'')
              [(stringEquals ''$.dynamodbResult.Item.payload.S'' ''true'', skip)]
              (Some invokeLambda)
      in (isLambdaAlreadySuccessful,
          this1\<lparr>items := (items this1)(''choose'' @ functionName lambda
                                          \<mapsto> isLambdaAlreadySuccessful)\<rparr>))"

definition registerSingleRunFn ::
  "Chain \<Rightarrow> Function \<Rightarrow> StepFunctionStack \<Rightarrow> Chain \<times> StepFunctionStack" where
  "registerSingleRunFn c lambda this =
     (let (fnStatus, this1) = registerCheck (functionName lambda) this;
          (fnChoice, this2) = registerChoice lambda this1
      in (Chain_next (Chain_next c fnStatus) fnChoice, this2))"

text \<open>
  \<^verbatim>\<open>processRegistry\<close>: the \<^verbatim>\<open>forEach\<close> over the registry, one entry per call, with
  \<^verbatim>\<open>localChain\<close> and the stack carried along. The callback reads the entry's value
  only, never its key.
\<close>

fun processRegistry ::
  "Chain \<Rightarrow> (string \<times> ILambdaRegistery) list \<Rightarrow> StepFunctionStack \<Rightarrow> Chain \<times> StepFunctionStack"
where
  "processRegistry localChain [] this = (localChain, this)"
| "processRegistry localChain ((key, item) # rest) this =
     (if repeat item then
        (let (localChain1, this1) = registerSingleRunFn localChain (fn item) this
         in processRegistry localChain1 rest this1)
      else
        (let (invokeLambda, this1) = registerFn (fn item) this
         in processRegistry (Chain_next localChain invokeLambda) rest this1))"

text \<open>The constructor, for the stack id and the configuration.\<close>

definition StepFunctionStack_new :: "string \<Rightarrow> IStepFunctionProps \<Rightarrow> StepFunctionStack" where
  "StepFunctionStack_new ident config =
     (let this = \<lparr>items = Map.empty, stateMachine = None,
                  systemTableName = IStepFunctionProps.systemTableName config,
                  tenant = IStepFunctionProps.tenant config,
                  chain = None, chainLink = None\<rparr>;
          initialPass = Pass (''Step One For:'' @ ident);
          (registrySteps, this1) = processRegistry (Chain_start initialPass) (fnRegistry config) this
      in this1\<lparr>chainLink := Some registrySteps\<rparr>)"

text \<open>
  The plan of a stack: the chain the constructor leaves in \<^verbatim>\<open>chainLink\<close>, which the
  caller hands to \<^verbatim>\<open>registerStateMachine\<close>.
\<close>

definition built_plan :: "string \<Rightarrow> IStepFunctionProps \<Rightarrow> Chain" where
  "built_plan ident config =
     (case chainLink (StepFunctionStack_new ident config) of None \<Rightarrow> [] | Some c \<Rightarrow> c)"

text \<open>
  \<^verbatim>\<open>registerStateMachine\<close>. The method has no check of its own: the only failure is
  the one \<^verbatim>\<open>Duration.minutes\<close> raises, which happens while the arguments of
  \<^verbatim>\<open>new StateMachine\<close> are evaluated, so the stack is left as it was.
\<close>

definition registerStateMachine ::
  "Chain \<Rightarrow> string \<Rightarrow> int \<Rightarrow> StepFunctionStack \<Rightarrow> error + StepFunctionStack" where
  "registerStateMachine def name t this =
     (case Duration_minutes t of
        Inl e \<Rightarrow> Inl e
      | Inr d \<Rightarrow>
          Inr (this\<lparr>stateMachine :=
                 Some \<lparr>machineName = name, definition_chain = def, timeout = d\<rparr>\<rparr>))"

text \<open>
  The steps that \<^verbatim>\<open>processRegistry\<close> appends for one registry entry: what it adds
  to the empty chain for the registry holding that entry alone.
\<close>

definition unit_steps :: "StepFunctionStack \<Rightarrow> string \<times> ILambdaRegistery \<Rightarrow> Chain" where
  "unit_steps this entry = fst (processRegistry [] [entry] this)"

text \<open>The Lambda functions that a state invokes, at any depth, in the order of the plan.\<close>

fun invoke_steps :: "IChainable \<Rightarrow> Function list" where
  "invoke_steps (Pass i) = []"
| "invoke_steps (LambdaInvoke i f outputPath) = [f]"
| "invoke_steps (DynamoGetItem i tbl key resultPath) = []"
| "invoke_steps (Choice i cs dflt) =
     concat (map (\<lambda>(c, s). invoke_steps s) cs) @
     (case dflt of None \<Rightarrow> [] | Some s \<Rightarrow> invoke_steps s)"

section \<open>The execution engine and the state store\<close>

text \<open>
  Modelled from the spec: the workflow execution engine and the key-value state store,
  which are services outside the repository. The specification gives their contract:
  the steps of a plan run strictly one after the other; the store, addressed by the
  compound key (unit name, tenant), returns an item or "not found"; a branch evaluates a
  string equality on a field of the previous step's result; a skip step does nothing;
  running a unit may write the store.

  The specification does not say what a branch does when the field it compares is not
  there. There the engine's own rule is taken, that of the Amazon States Language: a
  comparison whose variable path does not resolve fails the execution with
  \<^verbatim>\<open>States.Runtime\<close> (only a presence test, which the stack never emits, may ask
  whether a path is there), and a branch with no matching rule and no default fails with
  \<^verbatim>\<open>States.NoChoiceMatched\<close>.

  The document passed from step to step is flattened: a map from the path of a leaf to
  its string. An execution keeps the document, the store and the trace of what it did; a
  failed execution leaves its error and the trace up to the failure.
\<close>

type_synonym StateStore = "SystemTable list"

type_synonym Document = "string \<rightharpoonup> string"

text \<open>
  What running a function does: from the input document and the store, the result of the
  task (the function's answer under \<^verbatim>\<open>$.Payload\<close>) and the store afterwards.
\<close>

type_synonym Lambdas = "Function \<Rightarrow> Document \<Rightarrow> StateStore \<Rightarrow> Document \<times> StateStore"

datatype event =
    PassEv string
  | InvokeEv string Function
  | GetItemEv string "string \<times> string" "SystemTable option"
  | ChoiceEv string

datatype exec_error =
    ValidationException string
  | States_Runtime string
  | States_NoChoiceMatched string

record exec_state =
  doc :: Document
  store :: StateStore
  trace :: "event list"

text \<open>
  Modelled from the spec: the store returns the item with the given identifier, or
  "not found".
\<close>

definition getItem :: "StateStore \<Rightarrow> string \<times> string \<Rightarrow> SystemTable option" where
  "getItem s k = find (\<lambda>r. id' r = fst k \<and> SystemTable.tenant r = snd k) s"

text \<open>A key must give both attributes of the identifier.\<close>

definition key_of :: "(string \<times> DynamoAttributeValue) list \<Rightarrow> (string \<times> string) option" where
  "key_of key =
     (case (map_of key ''id'', map_of key ''tenant'') of
        (Some (AttrS i), Some (AttrS t)) \<Rightarrow> Some (i, t)
      | _ \<Rightarrow> None)"

text \<open>
  Writing a result at a path replaces whatever the document had below that path. The
  result of a read that found nothing has no \<^verbatim>\<open>Item\<close>: nothing is written below the
  path. A row without payload has no \<^verbatim>\<open>payload\<close> attribute either.
\<close>

definition clear_path :: "string \<Rightarrow> Document \<Rightarrow> Document" where
  "clear_path p d = (\<lambda>k. if take (length p) k = p then None else d k)"

definition put_result :: "string \<Rightarrow> SystemTable option \<Rightarrow> Document \<Rightarrow> Document" where
  "put_result p res d =
     (case res of
        None \<Rightarrow> clear_path p d
      | Some r \<Rightarrow>
          (let d1 = (clear_path p d)(p @ ''.Item.id.S'' \<mapsto> id' r,
                                     p @ ''.Item.tenant.S'' \<mapsto> SystemTable.tenant r)
           in case payload r of None \<Rightarrow> d1 | Some v \<Rightarrow> d1(p @ ''.Item.payload.S'' \<mapsto> v)))"

text \<open>\<^verbatim>\<open>outputPath\<close>: the part of the task's result below the path becomes the document.\<close>

definition select_path :: "string \<Rightarrow> Document \<Rightarrow> Document" where
  "select_path p d =
     (\<lambda>k. case k of [] \<Rightarrow> None | c # rest \<Rightarrow> if c = CHR ''$'' then d (p @ rest) else None)"

text \<open>
  A string equality is decided on the string the document has at the variable's path.
  Without a string there it has no value: this is the engine's rule, on which the
  specification is silent, and the execution fails on it.
\<close>

fun holds :: "Document \<Rightarrow> Condition \<Rightarrow> bool option" where
  "holds d (StringEquals variable val) =
     (case d variable of None \<Rightarrow> None | Some v \<Rightarrow> Some (v = val))"

fun variable_of :: "Condition \<Rightarrow> string" where
  "variable_of (StringEquals variable val) = variable"

text \<open>
  The rules are tried in order and the first whose condition holds decides; the default
  is taken when none does.
\<close>

datatype selection = Selected IChainable | Unresolved string | NoMatch

fun select_branch ::
  "Document \<Rightarrow> (Condition \<times> IChainable) list \<Rightarrow> IChainable option \<Rightarrow> selection" where
  "select_branch d [] dflt = (case dflt of None \<Rightarrow> NoMatch | Some s \<Rightarrow> Selected s)"
| "select_branch d ((c, s) # cs) dflt =
     (case holds d c of
        None \<Rightarrow> Unresolved (variable_of c)
      | Some True \<Rightarrow> Selected s
      | Some False \<Rightarrow> select_branch d cs dflt)"

text \<open>
  Modelled from the spec: the engine's run of one step, from the state of the execution
  to the next one, or to a failure. A pass does nothing; an invoke runs the function and
  keeps the part of its result under \<^verbatim>\<open>outputPath\<close>; a read of the store writes what it
  found at \<^verbatim>\<open>resultPath\<close>; a branch goes on with the step it selects.
\<close>

function exec_step ::
  "Lambdas \<Rightarrow> IChainable \<Rightarrow> exec_state \<Rightarrow> (exec_error \<times> event list) + exec_state" where
  "exec_step env (Pass i) \<sigma> = Inr (\<sigma>\<lparr>trace := trace \<sigma> @ [PassEv i]\<rparr>)"
| "exec_step env (LambdaInvoke i f outputPath) \<sigma> =
     (let (res, s) = env f (doc \<sigma>) (store \<sigma>)
      in Inr \<lparr>doc = select_path outputPath res, store = s, trace = trace \<sigma> @ [InvokeEv i f]\<rparr>)"
| "exec_step env (DynamoGetItem i tbl key resultPath) \<sigma> =
     (case key_of key of
        None \<Rightarrow> Inl (ValidationException i, trace \<sigma>)
      | Some k \<Rightarrow>
          (let res = getItem (store \<sigma>) k
           in Inr (\<sigma>\<lparr>doc := put_result resultPath res (doc \<sigma>),
                      trace := trace \<sigma> @ [GetItemEv i k res]\<rparr>)))"
| "exec_step env (Choice i cs dflt) \<sigma> =
     (case select_branch (doc \<sigma>) cs dflt of
        NoMatch \<Rightarrow> Inl (States_NoChoiceMatched i, trace \<sigma> @ [ChoiceEv i])
      | Unresolved p \<Rightarrow> Inl (States_Runtime p, trace \<sigma> @ [ChoiceEv i])
      | Selected s \<Rightarrow> exec_step env s (\<sigma>\<lparr>trace := trace \<sigma> @ [ChoiceEv i]\<rparr>))"
  by pat_completeness auto
termination
proof (relation "measure (\<lambda>(env, s, \<sigma>). size s)")
  show "wf (measure (\<lambda>(env, s, \<sigma>). size s))" by simp
next
  fix env :: Lambdas and i cs dflt and \<sigma> :: exec_state and s
  assume sel: "select_branch (doc \<sigma>) cs dflt = Selected s"
  have "select_branch d cs dflt = Selected s \<Longrightarrow>
        size s \<le> size_list (size_prod (\<lambda>_. 0) size) cs + size_option size dflt" for d
    by (induction cs) (auto split: option.splits bool.splits)
  from this [OF sel]
  show "((env, s, \<sigma>\<lparr>trace := trace \<sigma> @ [ChoiceEv i]\<rparr>), (env, Choice i cs dflt, \<sigma>))
          \<in> measure (\<lambda>(env, s, \<sigma>). size s)"
    by simp
qed

text \<open>Modelled from the spec: the steps of a plan run strictly in sequence.\<close>

fun exec ::
  "Lambdas \<Rightarrow> Chain \<Rightarrow> exec_state \<Rightarrow> (exec_error \<times> event list) + exec_state" where
  "exec env [] \<sigma> = Inr \<sigma>"
| "exec env (s # ss) \<sigma> =
     (case exec_step env s \<sigma> of Inl e \<Rightarrow> Inl e | Inr \<sigma>' \<Rightarrow> exec env ss \<sigma>')"

text \<open>One execution of a plan, started on an input document with the store as it is.\<close>

definition execute ::
  "Lambdas \<Rightarrow> Chain \<Rightarrow> Document \<Rightarrow> StateStore \<Rightarrow> (exec_error \<times> event list) + exec_state" where
  "execute env plan input s = exec env plan \<lparr>doc = input, store = s, trace = []\<rparr>"

text \<open>What an execution shows: the error it failed with, if any, and its trace.\<close>

definition outcome ::
  "Lambdas \<Rightarrow> Chain \<Rightarrow> Document \<Rightarrow> StateStore \<Rightarrow> exec_error option \<times> event list" where
  "outcome env plan input s =
     (case execute env plan input s of
        Inl (e, t) \<Rightarrow> (Some e, t)
      | Inr \<sigma> \<Rightarrow> (None, trace \<sigma>))"

text \<open>The names of the functions a trace invoked, in order.\<close>

fun invoked :: "event list \<Rightarrow> string list" where
  "invoked [] = []"
| "invoked (InvokeEv i f # es) = functionName f # invoked es"
| "invoked (e # es) = invoked es"

section \<open>Concrete inputs\<close>

text \<open>
  The registry of the test suite (one entry, with its \<^verbatim>\<open>repeat\<close> flag as a parameter),
  the stack constructed from it, and a stack constructed with no entry. Then the scenario
  of the specification, a unit \<open>A\<close> with \<^verbatim>\<open>repeat: false\<close> and a unit \<open>B\<close> with
  \<^verbatim>\<open>repeat: true\<close>, in both orders.
\<close>

definition mockLambda :: Function where
  "mockLambda = \<lparr>functionName = ''MockLambda''\<rparr>"

definition mockTable :: ITable where
  "mockTable = \<lparr>tableName = ''MockTable''\<rparr>"

definition mockProps :: "bool \<Rightarrow> IStepFunctionProps" where
  "mockProps r =
     \<lparr>IStepFunctionProps.systemTableName = mockTable,
      IStepFunctionProps.tenant = ''test-tenant'',
      fnRegistry = [(''TestLambda'', \<lparr>fn = mockLambda, repeat = r\<rparr>)]\<rparr>"

definition testStack :: StepFunctionStack where
  "testStack = StepFunctionStack_new ''TestStack'' (mockProps False)"

definition emptyProps :: IStepFunctionProps where
  "emptyProps =
     \<lparr>IStepFunctionProps.systemTableName = mockTable,
      IStepFunctionProps.tenant = ''test-tenant'',
      fnRegistry = []\<rparr>"

definition emptyStack :: StepFunctionStack where
  "emptyStack = StepFunctionStack_new ''TestStack'' emptyProps"

definition unitA :: ILambdaRegistery where
  "unitA = \<lparr>fn = \<lparr>functionName = ''A''\<rparr>, repeat = False\<rparr>"

definition unitB :: ILambdaRegistery where
  "unitB = \<lparr>fn = \<lparr>functionName = ''B''\<rparr>, repeat = True\<rparr>"

definition scenarioProps :: IStepFunctionProps where
  "scenarioProps =
     \<lparr>IStepFunctionProps.systemTableName = mockTable,
      IStepFunctionProps.tenant = ''test-tenant'',
      fnRegistry = [(''A'', unitA), (''B'', unitB)]\<rparr>"

definition swappedProps :: IStepFunctionProps where
  "swappedProps =
     \<lparr>IStepFunctionProps.systemTableName = mockTable,
      IStepFunctionProps.tenant = ''test-tenant'',
      fnRegistry = [(''B'', unitB), (''A'', unitA)]\<rparr>"

text \<open>
  A function that answers with an empty payload and records its own success, an empty
  input document, the row that records the success of a unit, and a row with another
  payload.
\<close>

definition marking :: Lambdas where
  "marking f d s =
     (Map.empty,
      \<lparr>id' = functionName f, SystemTable.tenant = ''test-tenant'', payload = Some ''true''\<rparr> # s)"

definition noInput :: Document where
  "noInput = Map.empty"

definition successRow :: "string \<Rightarrow> SystemTable" where
  "successRow n = \<lparr>id' = n, SystemTable.tenant = ''test-tenant'', payload = Some ''true''\<rparr>"

definition failedRow :: "string \<Rightarrow> SystemTable" where
  "failedRow n = \<lparr>id' = n, SystemTable.tenant = ''test-tenant'', payload = Some ''false''\<rparr>"

section \<open>What the builder appends\<close>

text \<open>
  The register methods change \<^verbatim>\<open>items\<close> only, so the tenant and the table stay what
  the constructor set; the steps of an entry depend on nothing else of the stack.
\<close>

lemma registerFn_eq:
  "registerFn lambda this =
     (LambdaInvoke (''Invoke '' @ functionName lambda) lambda ''$.Payload'',
      this\<lparr>items := (items this)(functionName lambda \<mapsto>
               LambdaInvoke (''Invoke '' @ functionName lambda) lambda ''$.Payload'')\<rparr>)"
  by (simp add: registerFn_def Let_def)

lemma registerFn_frame:
  "tenant (snd (registerFn lambda this)) = tenant this"
  "systemTableName (snd (registerFn lambda this)) = systemTableName this"
  by (simp_all add: registerFn_eq)

lemma registerSingleRunFn_fst:
  "fst (registerSingleRunFn c lambda this) =
     c @ [DynamoGetItem (''Check '' @ functionName lambda @ '' Status'') (systemTableName this)
            [(''id'', AttrS (functionName lambda)), (''tenant'', AttrS (tenant this))]
            ''$.dynamodbResult'',
          Choice (''Is '' @ functionName lambda @ '' Successful?'')
            [(StringEquals ''$.dynamodbResult.Item.payload.S'' ''true'',
              Pass (''Skip '' @ functionName lambda))]
            (Some (LambdaInvoke (''Invoke '' @ functionName lambda) lambda ''$.Payload''))]"
  by (simp add: registerSingleRunFn_def registerCheck_def registerChoice_def registerFn_def
      Chain_next_def fromString_def stringEquals_def Let_def)

lemma registerSingleRunFn_frame:
  "tenant (snd (registerSingleRunFn c lambda this)) = tenant this"
  "systemTableName (snd (registerSingleRunFn c lambda this)) = systemTableName this"
  by (simp_all add: registerSingleRunFn_def registerCheck_def registerChoice_def registerFn_def
      Let_def)

lemma unit_steps_eq:
  "unit_steps this (key, item) =
     (if repeat item then fst (registerSingleRunFn [] (fn item) this)
      else [fst (registerFn (fn item) this)])"
  by (simp add: unit_steps_def Chain_next_def split: prod.splits)

lemma unit_steps_cong:
  "tenant a = tenant b \<Longrightarrow> systemTableName a = systemTableName b \<Longrightarrow>
   unit_steps a e = unit_steps b e"
  by (cases e) (simp add: unit_steps_eq registerSingleRunFn_fst registerFn_eq)

lemma processRegistry_frame:
  "tenant (snd (processRegistry c R this)) = tenant this \<and>
   systemTableName (snd (processRegistry c R this)) = systemTableName this"
proof (induction R arbitrary: c this)
  case Nil
  show ?case by simp
next
  case (Cons e R)
  obtain key item where e: "e = (key, item)" by (cases e)
  show ?case
  proof (cases "repeat item")
    case True
    obtain c1 this1 where r: "registerSingleRunFn c (fn item) this = (c1, this1)"
      by (cases "registerSingleRunFn c (fn item) this")
    from registerSingleRunFn_frame [of c "fn item" this] r
    have "tenant this1 = tenant this" "systemTableName this1 = systemTableName this" by simp_all
    with Cons.IH [of c1 this1] e True r show ?thesis by simp
  next
    case False
    obtain s this1 where r: "registerFn (fn item) this = (s, this1)"
      by (cases "registerFn (fn item) this")
    from registerFn_frame [of "fn item" this] r
    have "tenant this1 = tenant this" "systemTableName this1 = systemTableName this" by simp_all
    with Cons.IH [of "Chain_next c s" this1] e False r show ?thesis by simp
  qed
qed

text \<open>The loop appends the steps of each entry, in the order of the entries.\<close>

lemma processRegistry_plan:
  "fst (processRegistry c R this) = c @ concat (map (unit_steps this) R)"
proof (induction R arbitrary: c this)
  case Nil
  show ?case by simp
next
  case (Cons e R)
  obtain key item where e: "e = (key, item)" by (cases e)
  show ?case
  proof (cases "repeat item")
    case True
    obtain c1 this1 where r: "registerSingleRunFn c (fn item) this = (c1, this1)"
      by (cases "registerSingleRunFn c (fn item) this")
    from registerSingleRunFn_frame [of c "fn item" this] r
    have fr: "tenant this1 = tenant this" "systemTableName this1 = systemTableName this"
      by simp_all
    have same: "map (unit_steps this1) R = map (unit_steps this) R"
      using unit_steps_cong [OF fr] by simp
    have c1: "c1 = c @ unit_steps this e"
      using registerSingleRunFn_fst [of c "fn item" this] r e True
      by (simp add: unit_steps_eq registerSingleRunFn_fst)
    from Cons.IH [of c1 this1] e True r same c1 show ?thesis by simp
  next
    case False
    obtain s this1 where r: "registerFn (fn item) this = (s, this1)"
      by (cases "registerFn (fn item) this")
    from registerFn_frame [of "fn item" this] r
    have fr: "tenant this1 = tenant this" "systemTableName this1 = systemTableName this"
      by simp_all
    have same: "map (unit_steps this1) R = map (unit_steps this) R"
      using unit_steps_cong [OF fr] by simp
    have c1: "Chain_next c s = c @ unit_steps this e"
      using r e False by (simp add: unit_steps_eq Chain_next_def)
    from Cons.IH [of "Chain_next c s" this1] e False r same c1 show ?thesis by simp
  qed
qed

lemma new_frame:
  "tenant (StepFunctionStack_new ident config) = IStepFunctionProps.tenant config"
  "systemTableName (StepFunctionStack_new ident config) = IStepFunctionProps.systemTableName config"
proof -
  define this0 where "this0 = \<lparr>items = Map.empty, stateMachine = None,
      systemTableName = IStepFunctionProps.systemTableName config,
      tenant = IStepFunctionProps.tenant config, chain = None, chainLink = None\<rparr>"
  obtain p this1 where r:
    "processRegistry (Chain_start (Pass (''Step One For:'' @ ident))) (fnRegistry config) this0 = (p, this1)"
    by (cases "processRegistry (Chain_start (Pass (''Step One For:'' @ ident))) (fnRegistry config) this0")
  have new: "StepFunctionStack_new ident config = this1\<lparr>chainLink := Some p\<rparr>"
    using r by (simp add: StepFunctionStack_new_def this0_def Let_def)
  from processRegistry_frame [of "Chain_start (Pass (''Step One For:'' @ ident))" "fnRegistry config" this0] r
  have fr: "tenant this1 = tenant this0" "systemTableName this1 = systemTableName this0"
    by simp_all
  show "tenant (StepFunctionStack_new ident config) = IStepFunctionProps.tenant config"
    using new fr by (simp add: this0_def)
  show "systemTableName (StepFunctionStack_new ident config) = IStepFunctionProps.systemTableName config"
    using new fr by (simp add: this0_def)
qed

lemma chainLink_new:
  "chainLink (StepFunctionStack_new ident config) =
     Some (Pass (''Step One For:'' @ ident) #
           concat (map (unit_steps (StepFunctionStack_new ident config)) (fnRegistry config)))"
proof -
  define this0 where "this0 = \<lparr>items = Map.empty, stateMachine = None,
      systemTableName = IStepFunctionProps.systemTableName config,
      tenant = IStepFunctionProps.tenant config, chain = None, chainLink = None\<rparr>"
  define c0 where "c0 = Chain_start (Pass (''Step One For:'' @ ident))"
  obtain p this1 where r: "processRegistry c0 (fnRegistry config) this0 = (p, this1)"
    by (cases "processRegistry c0 (fnRegistry config) this0")
  have new: "StepFunctionStack_new ident config = this1\<lparr>chainLink := Some p\<rparr>"
    using r by (simp add: StepFunctionStack_new_def this0_def c0_def Let_def)
  have A: "chainLink (StepFunctionStack_new ident config) = Some p"
    by (simp add: new)
  have fr: "tenant (StepFunctionStack_new ident config) = tenant this0"
           "systemTableName (StepFunctionStack_new ident config) = systemTableName this0"
    by (simp_all add: new_frame this0_def)
  have B: "map (unit_steps (StepFunctionStack_new ident config)) (fnRegistry config)
              = map (unit_steps this0) (fnRegistry config)"
    using unit_steps_cong [OF fr] by simp
  have P: "p = c0 @ concat (map (unit_steps this0) (fnRegistry config))"
    using processRegistry_plan [of c0 "fnRegistry config" this0] r by simp
  show ?thesis
    unfolding A B P by (simp add: c0_def Chain_start_def)
qed

text \<open>The plan of a stack, and its invoke steps.\<close>

lemma built_plan_eq:
  "built_plan ident config =
     Pass (''Step One For:'' @ ident) #
     concat (map (unit_steps (StepFunctionStack_new ident config)) (fnRegistry config))"
  by (simp add: built_plan_def chainLink_new)

lemma invoke_steps_unit:
  "concat (map invoke_steps (unit_steps this (key, item))) = [fn item]"
  by (simp add: unit_steps_eq registerSingleRunFn_fst registerFn_eq)

section \<open>Executing the guarded steps\<close>

text \<open>
  The two steps that \<^verbatim>\<open>registerSingleRunFn\<close> appends, run from any state of an
  execution. The read leaves a string at \<^verbatim>\<open>$.dynamodbResult.Item.payload.S\<close> only when
  it found a row that has a payload.
\<close>

lemma payload_read:
  "put_result ''$.dynamodbResult'' res d ''$.dynamodbResult.Item.payload.S''
     = (case res of None \<Rightarrow> None | Some r \<Rightarrow> payload r)"
  by (auto simp: put_result_def clear_path_def Let_def split: option.splits)

text \<open>With no row, or a row without payload, the branch fails and the function is not invoked.\<close>

lemma guarded_steps_unresolved:
  assumes "getItem (store \<sigma>) (functionName lambda, tenant this) = None \<or>
           (\<exists>r. getItem (store \<sigma>) (functionName lambda, tenant this) = Some r \<and>
                payload r = None)"
  shows "exec env (fst (registerSingleRunFn [] lambda this)) \<sigma> =
           Inl (States_Runtime ''$.dynamodbResult.Item.payload.S'',
                trace \<sigma> @
                [GetItemEv (''Check '' @ functionName lambda @ '' Status'')
                   (functionName lambda, tenant this)
                   (getItem (store \<sigma>) (functionName lambda, tenant this)),
                 ChoiceEv (''Is '' @ functionName lambda @ '' Successful?'')])"
  using assms
  by (auto simp: registerSingleRunFn_fst key_of_def payload_read Let_def)

text \<open>With a row whose payload is another string, the branch takes its default, the invoke.\<close>

lemma guarded_steps_other_payload:
  assumes "getItem (store \<sigma>) (functionName lambda, tenant this) = Some r"
    and "payload r = Some v" and "v \<noteq> ''true''"
  shows "\<exists>\<sigma>'. exec env (fst (registerSingleRunFn [] lambda this)) \<sigma> = Inr \<sigma>' \<and>
           trace \<sigma>' = trace \<sigma> @
                [GetItemEv (''Check '' @ functionName lambda @ '' Status'')
                   (functionName lambda, tenant this) (Some r),
                 ChoiceEv (''Is '' @ functionName lambda @ '' Successful?''),
                 InvokeEv (''Invoke '' @ functionName lambda) lambda]"
  using assms
  by (auto simp: registerSingleRunFn_fst key_of_def payload_read Let_def split: prod.splits)

text \<open>With a row whose payload is \<^verbatim>\<open>true\<close>, the branch takes the skip.\<close>

lemma guarded_steps_success:
  assumes "getItem (store \<sigma>) (functionName lambda, tenant this) = Some r"
    and "payload r = Some ''true''"
  shows "\<exists>\<sigma>'. exec env (fst (registerSingleRunFn [] lambda this)) \<sigma> = Inr \<sigma>' \<and>
           trace \<sigma>' = trace \<sigma> @
                [GetItemEv (''Check '' @ functionName lambda @ '' Status'')
                   (functionName lambda, tenant this) (Some r),
                 ChoiceEv (''Is '' @ functionName lambda @ '' Successful?''),
                 PassEv (''Skip '' @ functionName lambda)]"
  using assms
  by (auto simp: registerSingleRunFn_fst key_of_def payload_read Let_def)

text \<open>Facts about the concrete inputs.\<close>

lemma emptyStack_frame:
  "tenant emptyStack = ''test-tenant''" "systemTableName emptyStack = mockTable"
  by (simp_all add: emptyStack_def new_frame emptyProps_def)

lemma empty_plan: "built_plan ''TestStack'' emptyProps = [Pass ''Step One For:TestStack'']"
  by (simp add: built_plan_eq emptyProps_def)

lemma scenario_plan:
  "built_plan ''TestStack'' scenarioProps =
     [Pass ''Step One For:TestStack'',
      LambdaInvoke ''Invoke A'' (fn unitA) ''$.Payload'',
      DynamoGetItem ''Check B Status'' mockTable
        [(''id'', AttrS ''B''), (''tenant'', AttrS ''test-tenant'')] ''$.dynamodbResult'',
      Choice ''Is B Successful?''
        [(StringEquals ''$.dynamodbResult.Item.payload.S'' ''true'', Pass ''Skip B'')]
        (Some (LambdaInvoke ''Invoke B'' (fn unitB) ''$.Payload''))]"
  by (simp add: built_plan_eq unit_steps_eq registerSingleRunFn_fst registerFn_eq new_frame
      scenarioProps_def unitA_def unitB_def)

lemma swapped_plan:
  "built_plan ''TestStack'' swappedProps =
     [Pass ''Step One For:TestStack'',
      DynamoGetItem ''Check B Status'' mockTable
        [(''id'', AttrS ''B''), (''tenant'', AttrS ''test-tenant'')] ''$.dynamodbResult'',
      Choice ''Is B Successful?''
        [(StringEquals ''$.dynamodbResult.Item.payload.S'' ''true'', Pass ''Skip B'')]
        (Some (LambdaInvoke ''Invoke B'' (fn unitB) ''$.Payload'')),
      LambdaInvoke ''Invoke A'' (fn unitA) ''$.Payload'']"
  by (simp add: built_plan_eq unit_steps_eq registerSingleRunFn_fst registerFn_eq new_frame
      swappedProps_def unitA_def unitB_def)

lemma run_once_plan:
  "built_plan ''TestStack'' (mockProps False) =
     [Pass ''Step One For:TestStack'',
      LambdaInvoke ''Invoke MockLambda'' mockLambda ''$.Payload'']"
  by (simp add: built_plan_eq unit_steps_eq registerFn_eq mockProps_def mockLambda_def)

lemma guarded_plan:
  "fst (registerSingleRunFn (built_plan ''TestStack'' emptyProps) mockLambda emptyStack) =
     [Pass ''Step One For:TestStack'',
      DynamoGetItem ''Check MockLambda Status'' mockTable
        [(''id'', AttrS ''MockLambda''), (''tenant'', AttrS ''test-tenant'')] ''$.dynamodbResult'',
      Choice ''Is MockLambda Successful?''
        [(StringEquals ''$.dynamodbResult.Item.payload.S'' ''true'', Pass ''Skip MockLambda'')]
        (Some (LambdaInvoke ''Invoke MockLambda'' mockLambda ''$.Payload''))]"
  by (simp add: registerSingleRunFn_fst empty_plan emptyStack_frame mockLambda_def)

section \<open>The claims\<close>

text \<open>
  C1. The plan for the registry of the test suite, whose single entry has
  \<^verbatim>\<open>repeat: false\<close> (run only once), is the initial step and a direct invoke, with no
  state check; with \<^verbatim>\<open>repeat: true\<close> (repeatable) the same entry gets the state check
  and the branch. The claim asks for the opposite assignment.
\<close>

theorem repeat_flag_selects_guard:
  "built_plan ''TestStack'' (mockProps False) =
     [Pass ''Step One For:TestStack'',
      LambdaInvoke ''Invoke MockLambda'' mockLambda ''$.Payload''] \<and>
   built_plan ''TestStack'' (mockProps True) =
     [Pass ''Step One For:TestStack'',
      DynamoGetItem ''Check MockLambda Status'' mockTable
        [(''id'', AttrS ''MockLambda''), (''tenant'', AttrS ''test-tenant'')] ''$.dynamodbResult'',
      Choice ''Is MockLambda Successful?''
        [(StringEquals ''$.dynamodbResult.Item.payload.S'' ''true'', Pass ''Skip MockLambda'')]
        (Some (LambdaInvoke ''Invoke MockLambda'' mockLambda ''$.Payload''))]"
  by (simp add: built_plan_eq unit_steps_eq registerSingleRunFn_fst registerFn_eq new_frame
      mockProps_def mockLambda_def)

text \<open>
  C2. \<^verbatim>\<open>registerStateMachine\<close> does not check the timeout. A negative timeout fails in
  the framework's \<^verbatim>\<open>Duration.minutes\<close>, before the state machine is created, and the
  stack stays as it was. Every other timeout, zero included, is registered as it is, in
  minutes: nothing is clamped, and nothing fails for zero.
\<close>

theorem registerStateMachine_timeout:
  "(t < 0 \<longrightarrow> registerStateMachine def name t this = Inl (NegativeDuration t)) \<and>
   (0 \<le> t \<longrightarrow>
      registerStateMachine def name t this =
        Inr (this\<lparr>stateMachine :=
               Some \<lparr>machineName = name, definition_chain = def,
                     timeout = Duration t Minutes\<rparr>\<rparr>))"
  by (simp add: registerStateMachine_def Duration_minutes_def)

theorem registerStateMachine_timeout_witness:
  "registerStateMachine (built_plan ''TestStack'' (mockProps False)) ''TestStateMachine'' (- 1)
     testStack = Inl (NegativeDuration (- 1)) \<and>
   registerStateMachine (built_plan ''TestStack'' (mockProps False)) ''TestStateMachine'' 0
     testStack =
     Inr (testStack\<lparr>stateMachine :=
            Some \<lparr>machineName = ''TestStateMachine'',
                  definition_chain = built_plan ''TestStack'' (mockProps False),
                  timeout = Duration 0 Minutes\<rparr>\<rparr>)"
  using registerStateMachine_timeout
          [of "- 1" "built_plan ''TestStack'' (mockProps False)" "''TestStateMachine''" testStack]
        registerStateMachine_timeout
          [of 0 "built_plan ''TestStack'' (mockProps False)" "''TestStateMachine''" testStack]
  by simp

theorem zero_timeout_registers:
  "\<not> isl (registerStateMachine (built_plan ''TestStack'' (mockProps False))
             ''TestStateMachine'' 0 testStack) \<and>
   stateMachine (projr (registerStateMachine (built_plan ''TestStack'' (mockProps False))
                          ''TestStateMachine'' 0 testStack)) =
     Some \<lparr>machineName = ''TestStateMachine'',
           definition_chain = built_plan ''TestStack'' (mockProps False),
           timeout = Duration 0 Minutes\<rparr>"
  by (simp add: registerStateMachine_def Duration_minutes_def)

text \<open>
  C3. The plan that \<^verbatim>\<open>processRegistry\<close> returns is the chain it was given followed by
  one segment per registry entry, in the order of the entries: as many segments as
  entries, none of them empty, each the steps of its own entry and invoking that entry's
  function and no other.
\<close>

theorem plan_segments:
  "fst (processRegistry c R this) = c @ concat (map (unit_steps this) R) \<and>
   length (map (unit_steps this) R) = length R \<and>
   (\<forall>e \<in> set R. unit_steps this e \<noteq> [] \<and>
                 concat (map invoke_steps (unit_steps this e)) = [fn (snd e)])"
proof -
  have "unit_steps this e \<noteq> [] \<and> concat (map invoke_steps (unit_steps this e)) = [fn (snd e)]"
    for e
    using invoke_steps_unit [of this "fst e" "snd e"] by auto
  then show ?thesis
    by (simp add: processRegistry_plan)
qed

theorem plan_segments_witness:
  "(''B'', unitB) \<in> set (fnRegistry scenarioProps) \<and>
   length (map (unit_steps testStack) (fnRegistry scenarioProps)) = 2 \<and>
   fst (processRegistry [Pass ''Step One For:TestStack''] (fnRegistry scenarioProps) testStack)
     = Pass ''Step One For:TestStack'' # unit_steps testStack (''A'', unitA)
         @ unit_steps testStack (''B'', unitB) \<and>
   unit_steps testStack (''B'', unitB) \<noteq> [] \<and>
   concat (map invoke_steps (unit_steps testStack (''B'', unitB))) = [fn unitB]"
  using plan_segments [of "[Pass ''Step One For:TestStack'']" "fnRegistry scenarioProps" testStack]
  by (simp add: scenarioProps_def)

text \<open>
  C4. \<^verbatim>\<open>registerSingleRunFn\<close> appends two steps to the chain. The first reads the system
  table at the key made of the function's name and the stack's tenant, and stores what it
  finds at \<^verbatim>\<open>$.dynamodbResult\<close>. The second, right after it, is a branch with one rule
  and a default: the rule compares the string at \<^verbatim>\<open>.Item.payload.S\<close> below that same
  path with \<^verbatim>\<open>true\<close> and leads to the step \<^verbatim>\<open>Skip <name>\<close>, which does nothing; the
  default is the invoke step that \<^verbatim>\<open>registerFn\<close> makes for the function.
\<close>

theorem single_run_sequence:
  "fst (registerSingleRunFn c lambda this) =
     c @ [DynamoGetItem (''Check '' @ functionName lambda @ '' Status'') (systemTableName this)
            [(''id'', fromString (functionName lambda)), (''tenant'', fromString (tenant this))]
            ''$.dynamodbResult'',
          Choice (''Is '' @ functionName lambda @ '' Successful?'')
            [(stringEquals (''$.dynamodbResult'' @ ''.Item.payload.S'') ''true'',
              Pass (''Skip '' @ functionName lambda))]
            (Some (fst (registerFn lambda this)))] \<and>
   key_of [(''id'', fromString (functionName lambda)), (''tenant'', fromString (tenant this))]
     = Some (functionName lambda, tenant this) \<and>
   fst (registerFn lambda this)
     = LambdaInvoke (''Invoke '' @ functionName lambda) lambda ''$.Payload''"
  by (simp add: registerSingleRunFn_fst registerFn_eq fromString_def stringEquals_def key_of_def)

text \<open>
  C5. The steps that \<^verbatim>\<open>registerSingleRunFn\<close> appends for a function, on a stack that
  has registered nothing yet, run after the initial step. With no row in the store for
  the function the execution fails at the branch, since the path the rule compares does
  not resolve, and the function is not invoked; with a row whose payload is \<^verbatim>\<open>false\<close>
  the execution takes the default of the branch and invokes the function. The claim asks
  for the second behaviour in both cases.
\<close>

theorem absent_record_fails:
  "outcome marking
     (fst (registerSingleRunFn (built_plan ''TestStack'' emptyProps) mockLambda emptyStack))
     noInput [] =
     (Some (States_Runtime ''$.dynamodbResult.Item.payload.S''),
      [PassEv ''Step One For:TestStack'',
       GetItemEv ''Check MockLambda Status'' (''MockLambda'', ''test-tenant'') None,
       ChoiceEv ''Is MockLambda Successful?'']) \<and>
   outcome marking
     (fst (registerSingleRunFn (built_plan ''TestStack'' emptyProps) mockLambda emptyStack))
     noInput [failedRow ''MockLambda''] =
     (None,
      [PassEv ''Step One For:TestStack'',
       GetItemEv ''Check MockLambda Status'' (''MockLambda'', ''test-tenant'')
         (Some (failedRow ''MockLambda'')),
       ChoiceEv ''Is MockLambda Successful?'',
       InvokeEv ''Invoke MockLambda'' mockLambda])"
  unfolding outcome_def execute_def guarded_plan
  by (simp add: key_of_def getItem_def payload_read failedRow_def marking_def mockLambda_def
      Let_def)

text \<open>
  C6. The plan for the registry of the test suite, whose single unit is flagged
  \<^verbatim>\<open>repeat: false\<close> (run only once), executed on an empty store: the execution invokes
  the unit right after the initial step, and no read of the store comes before the
  invoke. The claim asks that such a unit is never invoked without its state check.
\<close>

theorem run_once_unit_unchecked:
  "outcome marking (built_plan ''TestStack'' (mockProps False)) noInput [] =
     (None,
      [PassEv ''Step One For:TestStack'',
       InvokeEv ''Invoke MockLambda'' mockLambda])"
  unfolding outcome_def execute_def run_once_plan
  by (simp add: marking_def)

text \<open>
  C7. The same plan, executed on a store that holds the row of the unit with the payload
  \<^verbatim>\<open>true\<close>: the execution invokes the unit all the same. The claim asks that it never
  does.
\<close>

theorem recorded_success_still_invoked:
  "getItem [successRow ''MockLambda'']
     (functionName mockLambda, IStepFunctionProps.tenant (mockProps False))
     = Some (successRow ''MockLambda'') \<and>
   payload (successRow ''MockLambda'') = Some ''true'' \<and>
   outcome marking (built_plan ''TestStack'' (mockProps False)) noInput
     [successRow ''MockLambda''] =
     (None,
      [PassEv ''Step One For:TestStack'',
       InvokeEv ''Invoke MockLambda'' mockLambda]) \<and>
   invoked (snd (outcome marking (built_plan ''TestStack'' (mockProps False)) noInput
                   [successRow ''MockLambda''])) = [''MockLambda'']"
  unfolding outcome_def execute_def run_once_plan
  by (simp add: marking_def getItem_def successRow_def mockLambda_def mockProps_def)

text \<open>
  C8. The plans for the registry with the unit \<open>B\<close> (\<^verbatim>\<open>repeat: true\<close>) before the unit
  \<open>A\<close> (\<^verbatim>\<open>repeat: false\<close>), and for the registry with \<open>A\<close> before \<open>B\<close>, executed on an
  empty store. Both executions fail at the branch of \<open>B\<close>, whose rule compares a path
  that does not resolve: \<open>B\<close> is invoked in neither, and in the first \<open>A\<close> is not invoked
  either. The claim asks for exactly one invocation of a unit that has no record.
\<close>

theorem absent_record_never_invoked:
  "outcome marking (built_plan ''TestStack'' swappedProps) noInput [] =
     (Some (States_Runtime ''$.dynamodbResult.Item.payload.S''),
      [PassEv ''Step One For:TestStack'',
       GetItemEv ''Check B Status'' (''B'', ''test-tenant'') None,
       ChoiceEv ''Is B Successful?'']) \<and>
   count_list (invoked (snd (outcome marking (built_plan ''TestStack'' swappedProps)
                              noInput []))) ''A'' = 0 \<and>
   count_list (invoked (snd (outcome marking (built_plan ''TestStack'' swappedProps)
                              noInput []))) ''B'' = 0 \<and>
   outcome marking (built_plan ''TestStack'' scenarioProps) noInput [] =
     (Some (States_Runtime ''$.dynamodbResult.Item.payload.S''),
      [PassEv ''Step One For:TestStack'',
       InvokeEv ''Invoke A'' (fn unitA),
       GetItemEv ''Check B Status'' (''B'', ''test-tenant'') None,
       ChoiceEv ''Is B Successful?'']) \<and>
   count_list (invoked (snd (outcome marking (built_plan ''TestStack'' scenarioProps)
                              noInput []))) ''B'' = 0"
  unfolding outcome_def execute_def swapped_plan scenario_plan
  by (simp add: key_of_def getItem_def payload_read marking_def unitA_def unitB_def Let_def)

text \<open>
  C9. With an empty registry \<^verbatim>\<open>processRegistry\<close> returns the chain it was given, and the
  stack as it was; so the plan of a stack constructed with an empty registry is the
  initial step \<^verbatim>\<open>Step One For:<id>\<close> and nothing else.
\<close>

theorem empty_registry_plan:
  "processRegistry c [] this = (c, this) \<and>
   chainLink (StepFunctionStack_new ident (config\<lparr>fnRegistry := []\<rparr>))
     = Some [Pass (''Step One For:'' @ ident)]"
  by (simp add: chainLink_new)

text \<open>
  C10. \<^verbatim>\<open>registerStateMachine\<close> reads its timeout in minutes: for a positive \<open>t\<close> the
  state machine is registered with the duration of \<open>t\<close> minutes, which is \<open>t * 60\<close>
  seconds.
\<close>

theorem timeout_in_minutes:
  "0 < t \<Longrightarrow>
   registerStateMachine def name t this =
     Inr (this\<lparr>stateMachine :=
            Some \<lparr>machineName = name, definition_chain = def,
                  timeout = Duration t Minutes\<rparr>\<rparr>) \<and>
   toSeconds (Duration t Minutes) = t * 60"
  by (simp add: registerStateMachine_def Duration_minutes_def)

theorem timeout_in_minutes_witness:
  "(0::int) < 5 \<and>
   map_option (toSeconds \<circ> timeout)
     (stateMachine (projr (registerStateMachine (built_plan ''TestStack'' (mockProps False))
                             ''TestStateMachine'' 5 testStack))) = Some 300"
proof -
  have pos: "(0::int) < 5" by simp
  from timeout_in_minutes
         [OF pos, of "built_plan ''TestStack'' (mockProps False)" "''TestStateMachine''" testStack]
  show ?thesis by simp
qed

end
